theory Spec2Isabelle
  imports Main
begin

section \<open>Data model (inventory/models.py)\<close>

text \<open>
  A Python \<open>datetime.date\<close> is represented by its proleptic Gregorian ordinal
  (\<open>date.toordinal()\<close>): subtracting two dates gives a \<open>timedelta\<close> whose \<open>.days\<close> is the
  difference of the ordinals, and adding \<open>timedelta(days=7)\<close> adds 7. Python integers are
  unbounded, so \<open>IntegerField\<close> values are \<open>int\<close>. Primary keys are the non-negative
  integers that the URL converter \<open><int:pk>\<close> accepts. The limits that lie outside
  the repository (the last day a \<open>date\<close> can hold, the range of an integer column of the
  database) are not part of the model.

  The system-assigned timestamps (\<open>created_at\<close>, \<open>updated_at\<close>, \<open>date_added\<close>) are
  written once by the framework and read by none of the operations below; they are left
  out of the rows.
\<close>

type_synonym date = int

record StorageLocation =
  loc_pk :: nat
  loc_name :: string
  loc_description :: "string option"

record Category =
  cat_pk :: nat
  cat_name :: string
  cat_description :: "string option"

record Item =
  item_pk :: nat
  item_name :: string
  category :: nat
  default_storage_location :: nat
  preferred_store :: "string option"
  typical_quantity_unit :: string
  low_stock_threshold :: "int option"

record InventoryEntry =
  entry_pk :: nat
  item :: nat
  quantity :: int
  storage_location :: nat
  purchase_date :: date
  expiration_date :: date
  entry_notes :: "string option"

record UsageLog =
  log_pk :: nat
  inventory_entry :: nat
  quantity_used :: int
  usage_date :: date
  log_notes :: "string option"

text \<open>The relational store: one table per model, rows in insertion order.\<close>

record store =
  locations :: "StorageLocation list"
  categories :: "Category list"
  items :: "Item list"
  entries :: "InventoryEntry list"
  usage_logs :: "UsageLog list"

definition empty_store :: store where
  "empty_store = \<lparr>locations = [], categories = [], items = [], entries = [], usage_logs = []\<rparr>"

subsection \<open>Item methods\<close>

text \<open>\<open>self.inventory_entries.all()\<close>: the related manager of the foreign key
  \<open>InventoryEntry.item\<close>, with no filter on the quantity.\<close>

definition inventory_entries :: "store \<Rightarrow> Item \<Rightarrow> InventoryEntry list" where
  "inventory_entries s i = filter (\<lambda>e. item e = item_pk i) (entries s)"

definition get_total_quantity :: "store \<Rightarrow> Item \<Rightarrow> int" where
  "get_total_quantity s i = sum_list (map quantity (inventory_entries s i))"

definition is_low_stock :: "store \<Rightarrow> Item \<Rightarrow> bool" where
  "is_low_stock s i =
     (case low_stock_threshold i of
        None \<Rightarrow> False
      | Some t \<Rightarrow> get_total_quantity s i < t)"

subsection \<open>InventoryEntry methods\<close>

text \<open>\<open>date.today()\<close> is an ambient read of the clock; it is the parameter \<open>today\<close>.\<close>

definition days_until_expiration :: "InventoryEntry \<Rightarrow> date \<Rightarrow> int" where
  "days_until_expiration e today = expiration_date e - today"

definition is_expiring_soon :: "InventoryEntry \<Rightarrow> date \<Rightarrow> int \<Rightarrow> bool" where
  "is_expiring_soon e today days =
     (0 \<le> days_until_expiration e today \<and> days_until_expiration e today \<le> days)"

definition is_expired :: "InventoryEntry \<Rightarrow> date \<Rightarrow> bool" where
  "is_expired e today = (days_until_expiration e today < 0)"

section \<open>Read views (inventory/views.py)\<close>

text \<open>
  A request parameter or posted form field after the framework has parsed it: absent or
  empty, present but not of the field's type, or a value.
\<close>

datatype 'a posted = Blank | Malformed | Posted 'a

datatype py_error = ValueError

definition find_item :: "store \<Rightarrow> nat \<Rightarrow> Item option" where
  "find_item s pk = find (\<lambda>i. item_pk i = pk) (items s)"

definition find_entry :: "store \<Rightarrow> nat \<Rightarrow> InventoryEntry option" where
  "find_entry s pk = find (\<lambda>e. entry_pk e = pk) (entries s)"

definition find_location :: "store \<Rightarrow> nat \<Rightarrow> StorageLocation option" where
  "find_location s pk = find (\<lambda>l. loc_pk l = pk) (locations s)"

definition find_category :: "store \<Rightarrow> nat \<Rightarrow> Category option" where
  "find_category s pk = find (\<lambda>c. cat_pk c = pk) (categories s)"

subsection \<open>dashboard\<close>

text \<open>
  The two expiration queries of the dashboard. \<open>order_by\<close> is a stable sort on the key
  (the database leaves the order of ties open), \<open>[:5]\<close> is \<open>take 5\<close>.
\<close>

definition dashboard_expiring_soon :: "store \<Rightarrow> date \<Rightarrow> InventoryEntry list" where
  "dashboard_expiring_soon s today =
     (let seven_days = today + 7 in
      take 5 (sort_key expiration_date
        (filter (\<lambda>e. expiration_date e \<ge> today \<and> expiration_date e \<le> seven_days \<and> quantity e > 0)
           (entries s))))"

definition dashboard_expired_items :: "store \<Rightarrow> date \<Rightarrow> InventoryEntry list" where
  "dashboard_expired_items s today =
     filter (\<lambda>e. expiration_date e < today \<and> quantity e > 0) (entries s)"

definition dashboard_expired_count :: "store \<Rightarrow> date \<Rightarrow> nat" where
  "dashboard_expired_count s today = length (dashboard_expired_items s today)"

subsection \<open>inventory_list\<close>

text \<open>
  \<open>icontains\<close> is a case-insensitive substring test; letters are folded over ASCII.
\<close>

definition lower_char :: "char \<Rightarrow> char" where
  "lower_char c =
     (let n = (of_char c :: nat) in if 65 \<le> n \<and> n \<le> 90 then char_of (n + 32) else c)"

fun contains :: "string \<Rightarrow> string \<Rightarrow> bool" where
  "contains needle [] = (needle = [])"
| "contains needle (h # t) = (take (length needle) (h # t) = needle \<or> contains needle t)"

definition icontains :: "string \<Rightarrow> string \<Rightarrow> bool" where
  "icontains hay needle = contains (map lower_char needle) (map lower_char hay)"

text \<open>The search filter: \<open>Q(item__name__icontains=search) | Q(notes__icontains=search)\<close>.
  A null \<open>notes\<close> matches nothing.\<close>

definition search_matches :: "store \<Rightarrow> string \<Rightarrow> InventoryEntry \<Rightarrow> bool" where
  "search_matches s search e =
     ((case find_item s (item e) of None \<Rightarrow> False | Some i \<Rightarrow> icontains (item_name i) search)
      \<or> (case entry_notes e of None \<Rightarrow> False | Some n \<Rightarrow> icontains n search))"

text \<open>The \<open>status\<close> branch of the view, with \<open>seven_days = today + timedelta(days=7)\<close>.\<close>

definition status_filter :: "string option \<Rightarrow> date \<Rightarrow> InventoryEntry \<Rightarrow> bool" where
  "status_filter status today e =
     (if status = Some ''expiring'' then
        expiration_date e \<ge> today \<and> expiration_date e \<le> today + 7
      else if status = Some ''expired'' then
        expiration_date e < today
      else if status = Some ''fresh'' then
        expiration_date e > today + 7
      else True)"

record list_params =
  search :: "string option"
  category_param :: "int posted"
  location_param :: "int posted"
  status :: "string option"

text \<open>
  The \<open>entries\<close> of the view's context. A \<open>category\<close> or \<open>location\<close> parameter that is
  not a number makes the query raise \<open>ValueError\<close>.
\<close>

definition inventory_list :: "store \<Rightarrow> date \<Rightarrow> list_params \<Rightarrow> py_error + InventoryEntry list" where
  "inventory_list s today p =
     (let es0 = sort_key expiration_date (entries s);
          es1 = (case search p of
                   Some q \<Rightarrow> if q \<noteq> [] then filter (search_matches s q) es0 else es0
                 | None \<Rightarrow> es0)
      in case category_param p of
           Malformed \<Rightarrow> Inl ValueError
         | c \<Rightarrow>
          (let es2 = (case c of
                        Posted k \<Rightarrow>
                          filter (\<lambda>e. case find_item s (item e) of
                                         None \<Rightarrow> False
                                       | Some i \<Rightarrow> int (category i) = k) es1
                      | _ \<Rightarrow> es1)
           in case location_param p of
                Malformed \<Rightarrow> Inl ValueError
              | l \<Rightarrow>
               (let es3 = (case l of
                             Posted k \<Rightarrow> filter (\<lambda>e. int (storage_location e) = k) es2
                           | _ \<Rightarrow> es2)
                in Inr (filter (status_filter (status p) today) es3))))"

section \<open>Forms (inventory/forms.py)\<close>

text \<open>
  The messages a form can attach to a field. The first five are the framework's own
  (a required field left empty, a value of the wrong type, a reference that is not in the
  field's queryset, a text longer than \<open>max_length\<close>, a duplicate of a unique column); the
  others are the \<open>ValidationError\<close>s that forms.py raises:
  \<^item> \<open>Threshold_not_positive\<close>: 'Low stock threshold must be greater than 0';
  \<^item> \<open>Quantity_not_positive\<close>: 'Quantity must be greater than 0';
  \<^item> \<open>Expiration_before_purchase\<close>: 'Expiration date cannot be before purchase date';
  \<^item> \<open>Quantity_used_not_positive\<close>: 'Quantity used must be greater than 0';
  \<^item> \<open>Insufficient_quantity n\<close>: 'Cannot use more than available quantity (n)'.
\<close>

datatype message =
    Required
  | Invalid
  | Invalid_choice
  | Max_length
  | Already_exists
  | Threshold_not_positive
  | Quantity_not_positive
  | Expiration_before_purchase
  | Quantity_used_not_positive
  | Insufficient_quantity int

type_synonym form_errors = "(string \<times> message) list"

subsection \<open>Field cleaning\<close>

definition required :: "'a posted \<Rightarrow> message + 'a" where
  "required p = (case p of Blank \<Rightarrow> Inl Required | Malformed \<Rightarrow> Inl Invalid | Posted v \<Rightarrow> Inr v)"

definition optional :: "'a posted \<Rightarrow> message + 'a option" where
  "optional p =
     (case p of Blank \<Rightarrow> Inr None | Malformed \<Rightarrow> Inl Invalid | Posted v \<Rightarrow> Inr (Some v))"

text \<open>A \<open>ModelChoiceField\<close>: the posted key must be one of the queryset's.\<close>

definition model_choice :: "nat list \<Rightarrow> nat posted \<Rightarrow> message + nat" where
  "model_choice pks p =
     (case p of
        Blank \<Rightarrow> Inl Required
      | Malformed \<Rightarrow> Inl Invalid_choice
      | Posted k \<Rightarrow> if k \<in> set pks then Inr k else Inl Invalid_choice)"

text \<open>
  Text inputs arrive stripped, and an input that is absent is the empty string. A
  \<open>CharField\<close> column that allows null stores an empty input as null; a \<open>TextField\<close>
  (\<open>description\<close>, \<open>notes\<close>) stores the string it was given.
\<close>

definition char_field :: "nat \<Rightarrow> string \<Rightarrow> message + string" where
  "char_field max_length v =
     (if v = [] then Inl Required
      else if length v > max_length then Inl Max_length
      else Inr v)"

definition optional_char_field :: "nat \<Rightarrow> string \<Rightarrow> message + string option" where
  "optional_char_field max_length v =
     (if v = [] then Inr None
      else if length v > max_length then Inl Max_length
      else Inr (Some v))"

text \<open>A field's own \<open>clean_<name>\<close> method runs only when the field's value was accepted.\<close>

definition and_then :: "message + 'a \<Rightarrow> ('a \<Rightarrow> message + 'b) \<Rightarrow> message + 'b" where
  "and_then r f = (case r of Inl m \<Rightarrow> Inl m | Inr v \<Rightarrow> f v)"

definition field_errors :: "string \<Rightarrow> message + 'a \<Rightarrow> form_errors" where
  "field_errors name r = (case r of Inl m \<Rightarrow> [(name, m)] | Inr _ \<Rightarrow> [])"

text \<open>\<open>cleaned_data.get(name)\<close>: \<open>None\<close> for a field that was rejected.\<close>

definition cleaned_data_get :: "message + 'a \<Rightarrow> 'a option" where
  "cleaned_data_get r = (case r of Inl _ \<Rightarrow> None | Inr v \<Rightarrow> Some v)"

subsection \<open>StorageLocationForm, CategoryForm\<close>

record reference_post =
  post_name :: string
  post_description :: string

text \<open>The unique check on \<open>name\<close> leaves the form's own instance out.\<close>

definition StorageLocationForm_validate ::
  "store \<Rightarrow> nat \<Rightarrow> reference_post \<Rightarrow> form_errors + StorageLocation" where
  "StorageLocationForm_validate s pk d =
     (let name_r = and_then (char_field 100 (post_name d))
            (\<lambda>n. if \<exists>l \<in> set (locations s). loc_pk l \<noteq> pk \<and> loc_name l = n
                  then Inl Already_exists else Inr n)
      in case name_r of
           Inr n \<Rightarrow> Inr \<lparr>loc_pk = pk, loc_name = n, loc_description = Some (post_description d)\<rparr>
         | Inl m \<Rightarrow> Inl (field_errors ''name'' name_r))"

definition CategoryForm_validate ::
  "store \<Rightarrow> nat \<Rightarrow> reference_post \<Rightarrow> form_errors + Category" where
  "CategoryForm_validate s pk d =
     (let name_r = and_then (char_field 100 (post_name d))
            (\<lambda>n. if \<exists>c \<in> set (categories s). cat_pk c \<noteq> pk \<and> cat_name c = n
                  then Inl Already_exists else Inr n)
      in case name_r of
           Inr n \<Rightarrow> Inr \<lparr>cat_pk = pk, cat_name = n, cat_description = Some (post_description d)\<rparr>
         | Inl m \<Rightarrow> Inl (field_errors ''name'' name_r))"

subsection \<open>ItemForm\<close>

record item_post =
  post_item_name :: string
  post_category :: "nat posted"
  post_default_storage_location :: "nat posted"
  post_preferred_store :: string
  post_typical_quantity_unit :: string
  post_low_stock_threshold :: "int posted"

definition ItemForm_clean_low_stock_threshold :: "int option \<Rightarrow> message + int option" where
  "ItemForm_clean_low_stock_threshold threshold =
     (case threshold of
        None \<Rightarrow> Inr None
      | Some t \<Rightarrow> if t \<le> 0 then Inl Threshold_not_positive else Inr (Some t))"

definition ItemForm_validate :: "store \<Rightarrow> nat \<Rightarrow> item_post \<Rightarrow> form_errors + Item" where
  "ItemForm_validate s pk d =
     (let name_r = char_field 200 (post_item_name d);
          category_r = model_choice (map cat_pk (categories s)) (post_category d);
          location_r = model_choice (map loc_pk (locations s)) (post_default_storage_location d);
          store_r = optional_char_field 100 (post_preferred_store d);
          unit_r = char_field 50 (post_typical_quantity_unit d);
          threshold_r = and_then (optional (post_low_stock_threshold d))
                          ItemForm_clean_low_stock_threshold;
          errors = field_errors ''name'' name_r @ field_errors ''category'' category_r
                   @ field_errors ''default_storage_location'' location_r
                   @ field_errors ''preferred_store'' store_r
                   @ field_errors ''typical_quantity_unit'' unit_r
                   @ field_errors ''low_stock_threshold'' threshold_r
      in case (name_r, category_r, location_r, store_r, unit_r, threshold_r) of
           (Inr n, Inr c, Inr l, Inr p, Inr u, Inr t) \<Rightarrow>
             Inr \<lparr>item_pk = pk, item_name = n, category = c, default_storage_location = l,
                  preferred_store = p, typical_quantity_unit = u, low_stock_threshold = t\<rparr>
         | _ \<Rightarrow> Inl errors)"

subsection \<open>InventoryEntryForm\<close>

record entry_post =
  post_item :: "nat posted"
  post_quantity :: "int posted"
  post_storage_location :: "nat posted"
  post_purchase_date :: "date posted"
  post_expiration_date :: "date posted"
  post_notes :: string

definition InventoryEntryForm_clean_quantity :: "int \<Rightarrow> message + int" where
  "InventoryEntryForm_clean_quantity q =
     (if q \<le> 0 then Inl Quantity_not_positive else Inr q)"

text \<open>\<open>clean\<close> compares the two dates only when both fields were accepted.\<close>

definition InventoryEntryForm_clean :: "date option \<Rightarrow> date option \<Rightarrow> form_errors" where
  "InventoryEntryForm_clean purchase expiration =
     (case (purchase, expiration) of
        (Some p, Some e) \<Rightarrow>
          if e < p then [(''expiration_date'', Expiration_before_purchase)] else []
      | _ \<Rightarrow> [])"

definition InventoryEntryForm_validate ::
  "store \<Rightarrow> nat \<Rightarrow> entry_post \<Rightarrow> form_errors + InventoryEntry" where
  "InventoryEntryForm_validate s pk d =
     (let item_r = model_choice (map item_pk (items s)) (post_item d);
          quantity_r = and_then (required (post_quantity d)) InventoryEntryForm_clean_quantity;
          location_r = model_choice (map loc_pk (locations s)) (post_storage_location d);
          purchase_r = required (post_purchase_date d);
          expiration_r = required (post_expiration_date d);
          errors = field_errors ''item'' item_r @ field_errors ''quantity'' quantity_r
                   @ field_errors ''storage_location'' location_r
                   @ field_errors ''purchase_date'' purchase_r
                   @ field_errors ''expiration_date'' expiration_r
                   @ InventoryEntryForm_clean (cleaned_data_get purchase_r)
                       (cleaned_data_get expiration_r)
      in case (item_r, quantity_r, location_r, purchase_r, expiration_r) of
           (Inr i, Inr q, Inr l, Inr p, Inr e) \<Rightarrow>
             if errors = [] then
               Inr \<lparr>entry_pk = pk, item = i, quantity = q, storage_location = l,
                    purchase_date = p, expiration_date = e,
                    entry_notes = Some (post_notes d)\<rparr>
             else Inl errors
         | _ \<Rightarrow> Inl errors)"

subsection \<open>UsageLogForm\<close>

record usage_post =
  post_inventory_entry :: "nat posted"
  post_quantity_used :: "int posted"
  post_usage_date :: "date posted"
  post_log_notes :: string

text \<open>
  \<open>__init__\<close> restricts the \<open>inventory_entry\<close> field to \<open>filter(quantity__gt=0)\<close>. The
  field's value is the row with the posted key (keys are unique in the table), when that
  row is in the queryset.
\<close>

definition UsageLogForm_inventory_entry :: "store \<Rightarrow> nat posted \<Rightarrow> message + InventoryEntry" where
  "UsageLogForm_inventory_entry s p =
     (case p of
        Blank \<Rightarrow> Inl Required
      | Malformed \<Rightarrow> Inl Invalid_choice
      | Posted k \<Rightarrow>
         (case find_entry s k of
            None \<Rightarrow> Inl Invalid_choice
          | Some e \<Rightarrow> if quantity e > 0 then Inr e else Inl Invalid_choice))"

definition UsageLogForm_clean_quantity_used :: "int \<Rightarrow> message + int" where
  "UsageLogForm_clean_quantity_used q =
     (if q \<le> 0 then Inl Quantity_used_not_positive else Inr q)"

text \<open>\<open>if inventory_entry and quantity_used\<close>: a model instance is always true, an
  integer is true when it is not 0.\<close>

definition UsageLogForm_clean :: "InventoryEntry option \<Rightarrow> int option \<Rightarrow> form_errors" where
  "UsageLogForm_clean entry used =
     (case (entry, used) of
        (Some e, Some q) \<Rightarrow>
          if q \<noteq> 0 then
            (if q > quantity e then [(''quantity_used'', Insufficient_quantity (quantity e))]
             else [])
          else []
      | _ \<Rightarrow> [])"

definition UsageLogForm_validate ::
  "store \<Rightarrow> nat \<Rightarrow> usage_post \<Rightarrow> form_errors + UsageLog \<times> InventoryEntry" where
  "UsageLogForm_validate s pk d =
     (let entry_r = UsageLogForm_inventory_entry s (post_inventory_entry d);
          used_r = and_then (required (post_quantity_used d)) UsageLogForm_clean_quantity_used;
          date_r = required (post_usage_date d);
          errors = field_errors ''inventory_entry'' entry_r
                   @ field_errors ''quantity_used'' used_r
                   @ field_errors ''usage_date'' date_r
                   @ UsageLogForm_clean (cleaned_data_get entry_r) (cleaned_data_get used_r)
      in case (entry_r, used_r, date_r) of
           (Inr e, Inr q, Inr u) \<Rightarrow>
             if errors = [] then
               Inr (\<lparr>log_pk = pk, inventory_entry = entry_pk e, quantity_used = q,
                     usage_date = u, log_notes = Some (post_log_notes d)\<rparr>, e)
             else Inl errors
         | _ \<Rightarrow> Inl errors)"

section \<open>Write views (inventory/views.py)\<close>

text \<open>
  A view takes the store and the request and returns the store it leaves behind together
  with what it answered:
  \<^item> \<open>Redirect_success\<close>: \<open>messages.success\<close> and a redirect;
  \<^item> \<open>Redirect_error\<close>: \<open>messages.error\<close> and a redirect (a delete that the database
    refused);
  \<^item> \<open>Form_invalid errs\<close>: the form rendered again with its errors;
  \<^item> \<open>Form_shown\<close>: the empty form or the confirmation page of a request that is not a POST;
  \<^item> \<open>Http404\<close>: \<open>get_object_or_404\<close> found no row.
\<close>

datatype http_method = GET | POST

datatype outcome =
    Redirect_success
  | Redirect_error
  | Form_invalid form_errors
  | Form_shown
  | Http404

text \<open>
  The key the database gives a new row, taken as one more than the largest key of the
  table. It is a key that no row of the table has; a database sequence would moreover
  never hand out again the key of a deleted row, which this choice does when the row with
  the largest key is deleted.
\<close>

definition next_pk :: "nat list \<Rightarrow> nat" where
  "next_pk ks = Suc (fold max ks 0)"

text \<open>\<open>instance.save()\<close> of a row that is in the table: an \<open>UPDATE\<close> of every column
  where the key matches.\<close>

definition save_entry :: "store \<Rightarrow> InventoryEntry \<Rightarrow> store" where
  "save_entry s row =
     s\<lparr>entries := map (\<lambda>e. if entry_pk e = entry_pk row then row else e) (entries s)\<rparr>"

definition save_item :: "store \<Rightarrow> Item \<Rightarrow> store" where
  "save_item s row =
     s\<lparr>items := map (\<lambda>i. if item_pk i = item_pk row then row else i) (items s)\<rparr>"

definition save_location :: "store \<Rightarrow> StorageLocation \<Rightarrow> store" where
  "save_location s row =
     s\<lparr>locations := map (\<lambda>l. if loc_pk l = loc_pk row then row else l) (locations s)\<rparr>"

definition save_category :: "store \<Rightarrow> Category \<Rightarrow> store" where
  "save_category s row =
     s\<lparr>categories := map (\<lambda>c. if cat_pk c = cat_pk row then row else c) (categories s)\<rparr>"

subsection \<open>Deletion as the model declares it (\<open>on_delete\<close>)\<close>

datatype db_error = ProtectedError

text \<open>\<open>UsageLog.inventory_entry\<close> is \<open>CASCADE\<close>.\<close>

definition delete_entry :: "store \<Rightarrow> nat \<Rightarrow> store" where
  "delete_entry s pk =
     s\<lparr>entries := filter (\<lambda>e. entry_pk e \<noteq> pk) (entries s),
       usage_logs := filter (\<lambda>l. inventory_entry l \<noteq> pk) (usage_logs s)\<rparr>"

text \<open>\<open>InventoryEntry.item\<close> is \<open>CASCADE\<close>: the item's entries go, and with them the
  usage logs of those entries.\<close>

definition delete_item :: "store \<Rightarrow> nat \<Rightarrow> store" where
  "delete_item s pk =
     (let doomed = map entry_pk (filter (\<lambda>e. item e = pk) (entries s)) in
      s\<lparr>items := filter (\<lambda>i. item_pk i \<noteq> pk) (items s),
        entries := filter (\<lambda>e. item e \<noteq> pk) (entries s),
        usage_logs := filter (\<lambda>l. inventory_entry l \<notin> set doomed) (usage_logs s)\<rparr>)"

text \<open>\<open>Item.default_storage_location\<close> and \<open>InventoryEntry.storage_location\<close> are
  \<open>PROTECT\<close>: the delete raises before it removes anything.\<close>

definition delete_location :: "store \<Rightarrow> nat \<Rightarrow> db_error + store" where
  "delete_location s pk =
     (if (\<exists>i \<in> set (items s). default_storage_location i = pk)
         \<or> (\<exists>e \<in> set (entries s). storage_location e = pk)
      then Inl ProtectedError
      else Inr (s\<lparr>locations := filter (\<lambda>l. loc_pk l \<noteq> pk) (locations s)\<rparr>))"

text \<open>\<open>Item.category\<close> is \<open>PROTECT\<close>.\<close>

definition delete_category :: "store \<Rightarrow> nat \<Rightarrow> db_error + store" where
  "delete_category s pk =
     (if \<exists>i \<in> set (items s). category i = pk
      then Inl ProtectedError
      else Inr (s\<lparr>categories := filter (\<lambda>c. cat_pk c \<noteq> pk) (categories s)\<rparr>))"

subsection \<open>Inventory entries\<close>

definition inventory_entry_create :: "store \<Rightarrow> http_method \<Rightarrow> entry_post \<Rightarrow> store \<times> outcome" where
  "inventory_entry_create s m d =
     (if m = POST then
        (case InventoryEntryForm_validate s (next_pk (map entry_pk (entries s))) d of
           Inr row \<Rightarrow> (s\<lparr>entries := entries s @ [row]\<rparr>, Redirect_success)
         | Inl errs \<Rightarrow> (s, Form_invalid errs))
      else (s, Form_shown))"

definition inventory_entry_update ::
  "store \<Rightarrow> http_method \<Rightarrow> nat \<Rightarrow> entry_post \<Rightarrow> store \<times> outcome" where
  "inventory_entry_update s m pk d =
     (case find_entry s pk of
        None \<Rightarrow> (s, Http404)
      | Some entry \<Rightarrow>
          if m = POST then
            (case InventoryEntryForm_validate s (entry_pk entry) d of
               Inr row \<Rightarrow> (save_entry s row, Redirect_success)
             | Inl errs \<Rightarrow> (s, Form_invalid errs))
          else (s, Form_shown))"

definition inventory_entry_delete :: "store \<Rightarrow> http_method \<Rightarrow> nat \<Rightarrow> store \<times> outcome" where
  "inventory_entry_delete s m pk =
     (case find_entry s pk of
        None \<Rightarrow> (s, Http404)
      | Some entry \<Rightarrow>
          if m = POST then (delete_entry s (entry_pk entry), Redirect_success)
          else (s, Form_shown))"

subsection \<open>Items\<close>

definition item_create :: "store \<Rightarrow> http_method \<Rightarrow> item_post \<Rightarrow> store \<times> outcome" where
  "item_create s m d =
     (if m = POST then
        (case ItemForm_validate s (next_pk (map item_pk (items s))) d of
           Inr row \<Rightarrow> (s\<lparr>items := items s @ [row]\<rparr>, Redirect_success)
         | Inl errs \<Rightarrow> (s, Form_invalid errs))
      else (s, Form_shown))"

definition item_update :: "store \<Rightarrow> http_method \<Rightarrow> nat \<Rightarrow> item_post \<Rightarrow> store \<times> outcome" where
  "item_update s m pk d =
     (case find_item s pk of
        None \<Rightarrow> (s, Http404)
      | Some i \<Rightarrow>
          if m = POST then
            (case ItemForm_validate s (item_pk i) d of
               Inr row \<Rightarrow> (save_item s row, Redirect_success)
             | Inl errs \<Rightarrow> (s, Form_invalid errs))
          else (s, Form_shown))"

definition item_delete :: "store \<Rightarrow> http_method \<Rightarrow> nat \<Rightarrow> store \<times> outcome" where
  "item_delete s m pk =
     (case find_item s pk of
        None \<Rightarrow> (s, Http404)
      | Some i \<Rightarrow>
          if m = POST then (delete_item s (item_pk i), Redirect_success)
          else (s, Form_shown))"

subsection \<open>Storage locations\<close>

definition location_create :: "store \<Rightarrow> http_method \<Rightarrow> reference_post \<Rightarrow> store \<times> outcome" where
  "location_create s m d =
     (if m = POST then
        (case StorageLocationForm_validate s (next_pk (map loc_pk (locations s))) d of
           Inr row \<Rightarrow> (s\<lparr>locations := locations s @ [row]\<rparr>, Redirect_success)
         | Inl errs \<Rightarrow> (s, Form_invalid errs))
      else (s, Form_shown))"

definition location_update ::
  "store \<Rightarrow> http_method \<Rightarrow> nat \<Rightarrow> reference_post \<Rightarrow> store \<times> outcome" where
  "location_update s m pk d =
     (case find_location s pk of
        None \<Rightarrow> (s, Http404)
      | Some l \<Rightarrow>
          if m = POST then
            (case StorageLocationForm_validate s (loc_pk l) d of
               Inr row \<Rightarrow> (save_location s row, Redirect_success)
             | Inl errs \<Rightarrow> (s, Form_invalid errs))
          else (s, Form_shown))"

text \<open>\<open>try: location.delete() ... except Exception\<close>: the refusal becomes an error
  message, and the view redirects either way.\<close>

definition location_delete :: "store \<Rightarrow> http_method \<Rightarrow> nat \<Rightarrow> store \<times> outcome" where
  "location_delete s m pk =
     (case find_location s pk of
        None \<Rightarrow> (s, Http404)
      | Some l \<Rightarrow>
          if m = POST then
            (case delete_location s (loc_pk l) of
               Inr s' \<Rightarrow> (s', Redirect_success)
             | Inl e \<Rightarrow> (s, Redirect_error))
          else (s, Form_shown))"

subsection \<open>Categories\<close>

definition category_create :: "store \<Rightarrow> http_method \<Rightarrow> reference_post \<Rightarrow> store \<times> outcome" where
  "category_create s m d =
     (if m = POST then
        (case CategoryForm_validate s (next_pk (map cat_pk (categories s))) d of
           Inr row \<Rightarrow> (s\<lparr>categories := categories s @ [row]\<rparr>, Redirect_success)
         | Inl errs \<Rightarrow> (s, Form_invalid errs))
      else (s, Form_shown))"

definition category_update ::
  "store \<Rightarrow> http_method \<Rightarrow> nat \<Rightarrow> reference_post \<Rightarrow> store \<times> outcome" where
  "category_update s m pk d =
     (case find_category s pk of
        None \<Rightarrow> (s, Http404)
      | Some c \<Rightarrow>
          if m = POST then
            (case CategoryForm_validate s (cat_pk c) d of
               Inr row \<Rightarrow> (save_category s row, Redirect_success)
             | Inl errs \<Rightarrow> (s, Form_invalid errs))
          else (s, Form_shown))"

definition category_delete :: "store \<Rightarrow> http_method \<Rightarrow> nat \<Rightarrow> store \<times> outcome" where
  "category_delete s m pk =
     (case find_category s pk of
        None \<Rightarrow> (s, Http404)
      | Some c \<Rightarrow>
          if m = POST then
            (case delete_category s (cat_pk c) of
               Inr s' \<Rightarrow> (s', Redirect_success)
             | Inl e \<Rightarrow> (s, Redirect_error))
          else (s, Form_shown))"

subsection \<open>Usage logs\<close>

text \<open>
  \<open>form.save()\<close> inserts the log; the entry that the form fetched is then decremented
  and saved.
\<close>

definition usage_log_create :: "store \<Rightarrow> http_method \<Rightarrow> usage_post \<Rightarrow> store \<times> outcome" where
  "usage_log_create s m d =
     (if m = POST then
        (case UsageLogForm_validate s (next_pk (map log_pk (usage_logs s))) d of
           Inr (usage_log, entry) \<Rightarrow>
             (let s1 = s\<lparr>usage_logs := usage_logs s @ [usage_log]\<rparr>;
                  entry' = entry\<lparr>quantity := quantity entry - quantity_used usage_log\<rparr>
              in (save_entry s1 entry', Redirect_success))
         | Inl errs \<Rightarrow> (s, Form_invalid errs))
      else (s, Form_shown))"

section \<open>The routed operations (inventory/urls.py) as a transition system\<close>

text \<open>
  The requests that urls.py routes to a view that writes, handled one at a time. The read
  views (dashboard, the lists, item_detail) leave the store as it is. The model classes
  that admin.py registers with the admin site are reached through no route of urls.py and
  are outside this transition system.
\<close>

datatype request =
    Inventory_entry_create http_method entry_post
  | Inventory_entry_update http_method nat entry_post
  | Inventory_entry_delete http_method nat
  | Item_create http_method item_post
  | Item_update http_method nat item_post
  | Item_delete http_method nat
  | Location_create http_method reference_post
  | Location_update http_method nat reference_post
  | Location_delete http_method nat
  | Category_create http_method reference_post
  | Category_update http_method nat reference_post
  | Category_delete http_method nat
  | Usage_log_create http_method usage_post

fun handle :: "store \<Rightarrow> request \<Rightarrow> store \<times> outcome" where
  "handle s (Inventory_entry_create m d) = inventory_entry_create s m d"
| "handle s (Inventory_entry_update m pk d) = inventory_entry_update s m pk d"
| "handle s (Inventory_entry_delete m pk) = inventory_entry_delete s m pk"
| "handle s (Item_create m d) = item_create s m d"
| "handle s (Item_update m pk d) = item_update s m pk d"
| "handle s (Item_delete m pk) = item_delete s m pk"
| "handle s (Location_create m d) = location_create s m d"
| "handle s (Location_update m pk d) = location_update s m pk d"
| "handle s (Location_delete m pk) = location_delete s m pk"
| "handle s (Category_create m d) = category_create s m d"
| "handle s (Category_update m pk d) = category_update s m pk d"
| "handle s (Category_delete m pk) = category_delete s m pk"
| "handle s (Usage_log_create m d) = usage_log_create s m d"

text \<open>The stores that a sequence of requests produces from the empty database.\<close>

fun run :: "store \<Rightarrow> request list \<Rightarrow> store" where
  "run s [] = s"
| "run s (r # rs) = run (fst (handle s r)) rs"

inductive reachable :: "store \<Rightarrow> bool" where
  reachable_empty: "reachable empty_store"
| reachable_step: "reachable s \<Longrightarrow> reachable (fst (handle s r))"

section \<open>Scenario data\<close>

text \<open>
  The rows and requests of the Milk scenario: category Dairy, location Fridge, item Milk
  with threshold 2, and an entry of 3 gallons bought on 2024-01-01 (day 738886) that
  expires on 2024-01-10 (day 738895). A second item, Eggs, has no threshold.
\<close>

definition fridge :: StorageLocation where
  "fridge = \<lparr>loc_pk = 1, loc_name = ''Fridge'', loc_description = Some ''''\<rparr>"

definition dairy :: Category where
  "dairy = \<lparr>cat_pk = 1, cat_name = ''Dairy'', cat_description = Some ''''\<rparr>"

definition milk :: Item where
  "milk = \<lparr>item_pk = 1, item_name = ''Milk'', category = 1, default_storage_location = 1,
            preferred_store = None, typical_quantity_unit = ''gallon'',
            low_stock_threshold = Some 2\<rparr>"

definition eggs :: Item where
  "eggs = \<lparr>item_pk = 2, item_name = ''Eggs'', category = 1, default_storage_location = 1,
            preferred_store = None, typical_quantity_unit = ''unit'',
            low_stock_threshold = None\<rparr>"

definition milk_entry :: "int \<Rightarrow> InventoryEntry" where
  "milk_entry q = \<lparr>entry_pk = 1, item = 1, quantity = q, storage_location = 1,
                    purchase_date = 738886, expiration_date = 738895, entry_notes = Some ''''\<rparr>"

definition eggs_entry :: "int \<Rightarrow> InventoryEntry" where
  "eggs_entry q = \<lparr>entry_pk = 2, item = 2, quantity = q, storage_location = 1,
                    purchase_date = 738887, expiration_date = 738908, entry_notes = Some ''''\<rparr>"

definition usage_row :: "nat \<Rightarrow> nat \<Rightarrow> int \<Rightarrow> UsageLog" where
  "usage_row k entry q = \<lparr>log_pk = k, inventory_entry = entry, quantity_used = q,
                       usage_date = 738887, log_notes = Some ''''\<rparr>"

definition usage_form :: "nat \<Rightarrow> int \<Rightarrow> usage_post" where
  "usage_form entry q = \<lparr>post_inventory_entry = Posted entry, post_quantity_used = Posted q,
                         post_usage_date = Posted 738887, post_log_notes = ''''\<rparr>"

definition milk_requests :: "request list" where
  "milk_requests =
     [Category_create POST \<lparr>post_name = ''Dairy'', post_description = ''''\<rparr>,
      Location_create POST \<lparr>post_name = ''Fridge'', post_description = ''''\<rparr>,
      Item_create POST \<lparr>post_item_name = ''Milk'', post_category = Posted 1,
        post_default_storage_location = Posted 1, post_preferred_store = '''',
        post_typical_quantity_unit = ''gallon'', post_low_stock_threshold = Posted 2\<rparr>,
      Inventory_entry_create POST \<lparr>post_item = Posted 1, post_quantity = Posted 3,
        post_storage_location = Posted 1, post_purchase_date = Posted 738886,
        post_expiration_date = Posted 738895, post_notes = ''''\<rparr>]"

definition eggs_requests :: "request list" where
  "eggs_requests =
     [Item_create POST \<lparr>post_item_name = ''Eggs'', post_category = Posted 1,
        post_default_storage_location = Posted 1, post_preferred_store = '''',
        post_typical_quantity_unit = ''unit'', post_low_stock_threshold = Blank\<rparr>,
      Inventory_entry_create POST \<lparr>post_item = Posted 2, post_quantity = Posted 12,
        post_storage_location = Posted 1, post_purchase_date = Posted 738887,
        post_expiration_date = Posted 738908, post_notes = ''''\<rparr>,
      Usage_log_create POST (usage_form 2 1)]"

definition milk_store :: store where
  "milk_store = \<lparr>locations = [fridge], categories = [dairy], items = [milk],
                  entries = [milk_entry 3], usage_logs = []\<rparr>"

definition milk_used_store :: store where
  "milk_used_store = \<lparr>locations = [fridge], categories = [dairy], items = [milk],
                       entries = [milk_entry 2], usage_logs = [usage_row 1 1 1]\<rparr>"

definition depleted_store :: store where
  "depleted_store = \<lparr>locations = [fridge], categories = [dairy], items = [milk],
                      entries = [milk_entry 0], usage_logs = [usage_row 1 1 1, usage_row 2 1 2]\<rparr>"

definition pantry_store :: store where
  "pantry_store = \<lparr>locations = [fridge], categories = [dairy], items = [milk, eggs],
                    entries = [milk_entry 2, eggs_entry 11],
                    usage_logs = [usage_row 1 1 1, usage_row 2 2 1]\<rparr>"

definition milk_form :: "int \<Rightarrow> date \<Rightarrow> date \<Rightarrow> string \<Rightarrow> entry_post" where
  "milk_form q purchase expiration n =
     \<lparr>post_item = Posted 1, post_quantity = Posted q, post_storage_location = Posted 1,
      post_purchase_date = Posted purchase, post_expiration_date = Posted expiration,
      post_notes = n\<rparr>"

definition status_params :: "string \<Rightarrow> list_params" where
  "status_params st = \<lparr>search = None, category_param = Blank, location_param = Blank,
                         status = Some st\<rparr>"

section \<open>Auxiliary facts\<close>

subsection \<open>Keys and lookups\<close>

lemma fold_max_ge: "a \<le> fold max ks (a::nat)"
  by (induction ks arbitrary: a) (auto intro: order_trans [OF max.cobounded2])

lemma fold_max_mem: "k \<in> set ks \<Longrightarrow> k \<le> fold max ks (a::nat)"
proof (induction ks arbitrary: a)
  case Nil
  then show ?case by simp
next
  case (Cons x xs)
  show ?case
  proof (cases "k = x")
    case True
    have "max x a \<le> fold max xs (max x a)" by (rule fold_max_ge)
    with True show ?thesis by simp
  next
    case False
    with Cons.prems have "k \<in> set xs" by simp
    then show ?thesis by (simp add: Cons.IH)
  qed
qed

lemma next_pk_fresh: "k \<in> set ks \<Longrightarrow> k < next_pk ks"
  by (simp add: next_pk_def fold_max_mem less_Suc_eq_le)

lemma find_entry_SomeD: "find_entry s k = Some e \<Longrightarrow> entry_pk e = k \<and> e \<in> set (entries s)"
  by (auto simp: find_entry_def find_Some_iff)

lemma find_replace:
  "find (\<lambda>x. entry_pk x = k) xs = Some e \<Longrightarrow> entry_pk row = k \<Longrightarrow>
   find (\<lambda>x. entry_pk x = k) (map (\<lambda>x. if entry_pk x = k then row else x) xs) = Some row"
  by (induction xs) (auto split: if_splits)

lemma find_entry_save_entry:
  "find_entry s (entry_pk row) = Some e \<Longrightarrow> find_entry (save_entry s row) (entry_pk row) = Some row"
  by (simp add: find_entry_def save_entry_def find_replace)

subsection \<open>What an accepted form holds\<close>

lemmas field_defs = and_then_def required_def optional_def model_choice_def field_errors_def
  cleaned_data_get_def char_field_def optional_char_field_def

lemma InventoryEntryForm_validate_Inr:
  assumes "InventoryEntryForm_validate s pk d = Inr row"
  shows "entry_pk row = pk \<and> 0 < quantity row \<and> purchase_date row \<le> expiration_date row
     \<and> post_quantity d = Posted (quantity row)
     \<and> post_purchase_date d = Posted (purchase_date row)
     \<and> post_expiration_date d = Posted (expiration_date row)"
  using assms
  by (auto simp: InventoryEntryForm_validate_def Let_def field_defs
      InventoryEntryForm_clean_quantity_def InventoryEntryForm_clean_def
      split: sum.splits posted.splits if_splits)



lemma InventoryEntryForm_validate_dates:
  assumes "post_purchase_date d = Posted p" "post_expiration_date d = Posted e" "e < p"
  shows "\<exists>errs. InventoryEntryForm_validate s pk d = Inl errs
           \<and> (''expiration_date'', Expiration_before_purchase) \<in> set errs"
  using assms
  by (auto simp: InventoryEntryForm_validate_def Let_def field_defs
      InventoryEntryForm_clean_def
      split: sum.splits posted.splits if_splits)

lemma UsageLogForm_validate_Inr:
  assumes "UsageLogForm_validate s pk d = Inr (u, e)"
  shows "post_inventory_entry d = Posted (entry_pk e) \<and> find_entry s (entry_pk e) = Some e
     \<and> post_quantity_used d = Posted (quantity_used u)
     \<and> post_usage_date d = Posted (usage_date u)
     \<and> 0 < quantity_used u \<and> quantity_used u \<le> quantity e
     \<and> u = \<lparr>log_pk = pk, inventory_entry = entry_pk e, quantity_used = quantity_used u,
             usage_date = usage_date u, log_notes = Some (post_log_notes d)\<rparr>"
  using assms
  by (auto simp: UsageLogForm_validate_def Let_def field_defs UsageLogForm_inventory_entry_def
      UsageLogForm_clean_quantity_used_def UsageLogForm_clean_def
      dest: find_entry_SomeD
      split: sum.splits posted.splits if_splits option.splits)

lemma UsageLogForm_validate_ok:
  assumes "post_inventory_entry d = Posted k" "post_quantity_used d = Posted q"
    "post_usage_date d = Posted ud" "find_entry s k = Some e" "0 < q" "q \<le> quantity e"
  shows "UsageLogForm_validate s pk d =
     Inr (\<lparr>log_pk = pk, inventory_entry = k, quantity_used = q, usage_date = ud,
            log_notes = Some (post_log_notes d)\<rparr>, e)"
  using assms find_entry_SomeD [OF assms(4)]
  by (auto simp: UsageLogForm_validate_def Let_def field_defs UsageLogForm_inventory_entry_def
      UsageLogForm_clean_quantity_used_def UsageLogForm_clean_def)

lemma UsageLogForm_validate_insufficient:
  assumes "post_inventory_entry d = Posted k" "post_quantity_used d = Posted q"
    "find_entry s k = Some e" "quantity e < q"
  shows "\<exists>errs. UsageLogForm_validate s pk d = Inl errs
     \<and> (if 0 < quantity e then (''quantity_used'', Insufficient_quantity (quantity e)) \<in> set errs
         else (''inventory_entry'', Invalid_choice) \<in> set errs
              \<and> (''quantity_used'', Insufficient_quantity (quantity e)) \<notin> set errs)"
  using assms
  by (auto simp: UsageLogForm_validate_def Let_def field_defs UsageLogForm_inventory_entry_def
      UsageLogForm_clean_quantity_used_def UsageLogForm_clean_def
      split: sum.splits posted.splits)

lemma usage_log_create_success:
  assumes "usage_log_create s POST d = (s', Redirect_success)"
  shows "\<exists>u e. UsageLogForm_validate s (next_pk (map log_pk (usage_logs s))) d = Inr (u, e)
      \<and> s' = save_entry (s\<lparr>usage_logs := usage_logs s @ [u]\<rparr>)
                (e\<lparr>quantity := quantity e - quantity_used u\<rparr>)"
  using assms
  by (auto simp: usage_log_create_def Let_def split: sum.splits prod.splits)

subsection \<open>Where the entries of the next store come from\<close>

lemma entries_inventory_entry_create:
  "x \<in> set (entries (fst (inventory_entry_create s m d))) \<Longrightarrow>
     x \<in> set (entries s) \<or> (\<exists>pk. InventoryEntryForm_validate s pk d = Inr x)"
  by (auto simp: inventory_entry_create_def split: if_splits sum.splits)

lemma entries_inventory_entry_update:
  "x \<in> set (entries (fst (inventory_entry_update s m k d))) \<Longrightarrow>
     x \<in> set (entries s) \<or> (\<exists>pk. InventoryEntryForm_validate s pk d = Inr x)"
  by (auto simp: inventory_entry_update_def save_entry_def
      split: if_splits sum.splits option.splits)

lemma entries_inventory_entry_delete:
  "x \<in> set (entries (fst (inventory_entry_delete s m k))) \<Longrightarrow> x \<in> set (entries s)"
  by (auto simp: inventory_entry_delete_def delete_entry_def split: if_splits option.splits)

lemma entries_item_create: "entries (fst (item_create s m d)) = entries s"
  by (auto simp: item_create_def split: if_splits sum.splits)

lemma entries_item_update: "entries (fst (item_update s m k d)) = entries s"
  by (auto simp: item_update_def save_item_def split: if_splits sum.splits option.splits)

lemma entries_item_delete:
  "x \<in> set (entries (fst (item_delete s m k))) \<Longrightarrow> x \<in> set (entries s)"
  by (auto simp: item_delete_def delete_item_def Let_def split: if_splits option.splits)

lemma entries_location_create: "entries (fst (location_create s m d)) = entries s"
  by (auto simp: location_create_def split: if_splits sum.splits)

lemma entries_location_update: "entries (fst (location_update s m k d)) = entries s"
  by (auto simp: location_update_def save_location_def split: if_splits sum.splits option.splits)

lemma entries_location_delete: "entries (fst (location_delete s m k)) = entries s"
  by (auto simp: location_delete_def delete_location_def split: if_splits sum.splits option.splits)

lemma entries_category_create: "entries (fst (category_create s m d)) = entries s"
  by (auto simp: category_create_def split: if_splits sum.splits)

lemma entries_category_update: "entries (fst (category_update s m k d)) = entries s"
  by (auto simp: category_update_def save_category_def split: if_splits sum.splits option.splits)

lemma entries_category_delete: "entries (fst (category_delete s m k)) = entries s"
  by (auto simp: category_delete_def delete_category_def split: if_splits sum.splits option.splits)

lemma entries_usage_log_create:
  assumes "x \<in> set (entries (fst (usage_log_create s m d)))"
  shows "x \<in> set (entries s)
     \<or> (\<exists>e q. e \<in> set (entries s) \<and> 0 < q \<and> q \<le> quantity e \<and> x = e\<lparr>quantity := quantity e - q\<rparr>)"
proof (cases "\<exists>s'. m = POST \<and> usage_log_create s POST d = (s', Redirect_success)")
  case True
  then obtain s' where m: "m = POST" and r: "usage_log_create s POST d = (s', Redirect_success)"
    by blast
  from usage_log_create_success [OF r] obtain u e
    where v: "UsageLogForm_validate s (next_pk (map log_pk (usage_logs s))) d = Inr (u, e)"
      and s': "s' = save_entry (s\<lparr>usage_logs := usage_logs s @ [u]\<rparr>)
                (e\<lparr>quantity := quantity e - quantity_used u\<rparr>)"
    by blast
  note f = UsageLogForm_validate_Inr [OF v]
  from f have e: "e \<in> set (entries s)" using find_entry_SomeD by blast
  from assms m r s' have "x \<in> set (entries s) \<or> x = e\<lparr>quantity := quantity e - quantity_used u\<rparr>"
    by (auto simp: save_entry_def split: if_splits)
  with e f show ?thesis by blast
next
  case False
  then have "fst (usage_log_create s m d) = s"
    by (auto simp: usage_log_create_def Let_def split: sum.splits prod.splits)
  with assms show ?thesis by simp
qed

lemma handle_entries:
  assumes "x \<in> set (entries (fst (handle s r)))"
  shows "x \<in> set (entries s)
     \<or> (\<exists>pk d. InventoryEntryForm_validate s pk d = Inr x)
     \<or> (\<exists>e q. e \<in> set (entries s) \<and> 0 < q \<and> q \<le> quantity e \<and> x = e\<lparr>quantity := quantity e - q\<rparr>)"
proof (cases r)
  case (Inventory_entry_create m d)
  with assms entries_inventory_entry_create show ?thesis by fastforce
next
  case (Inventory_entry_update m k d)
  with assms entries_inventory_entry_update show ?thesis by fastforce
next
  case (Inventory_entry_delete m k)
  with assms entries_inventory_entry_delete show ?thesis by fastforce
next
  case (Item_delete m k)
  with assms entries_item_delete show ?thesis by fastforce
next
  case (Usage_log_create m d)
  with assms entries_usage_log_create show ?thesis by fastforce
qed (use assms in \<open>simp_all add: entries_item_create entries_item_update entries_location_create
      entries_location_update entries_location_delete entries_category_create
      entries_category_update entries_category_delete\<close>)

lemma reachable_dates_ordered:
  "reachable s \<Longrightarrow> \<forall>e \<in> set (entries s). purchase_date e \<le> expiration_date e"
proof (induction rule: reachable.induct)
  case reachable_empty
  show ?case by (simp add: empty_store_def)
next
  case (reachable_step s r)
  show ?case
  proof
    fix x assume "x \<in> set (entries (fst (handle s r)))"
    from handle_entries [OF this] reachable_step.IH show "purchase_date x \<le> expiration_date x"
      by (auto dest: InventoryEntryForm_validate_Inr)
  qed
qed

lemma reachable_run: "reachable s \<Longrightarrow> reachable (run s rs)"
  by (induction rs arbitrary: s) (auto intro: reachable_step)

subsection \<open>Sums and cascades\<close>

lemma sum_list_nonzero:
  "sum_list (map quantity (filter P xs)) = sum_list (map quantity (filter (\<lambda>e. P e \<and> quantity e \<noteq> 0) xs))"
  by (induction xs) auto

lemma doomed_logs:
  "filter (\<lambda>l. inventory_entry l \<notin> set (map entry_pk (filter (\<lambda>e. item e = pk) es))) ls
   = filter (\<lambda>l. \<not> (\<exists>e \<in> set es. item e = pk \<and> entry_pk e = inventory_entry l)) ls"
proof (rule filter_cong)
  show "ls = ls" by (rule refl)
next
  fix x
  show "(inventory_entry x \<notin> set (map entry_pk (filter (\<lambda>e. item e = pk) es)))
      = (\<not> (\<exists>e \<in> set es. item e = pk \<and> entry_pk e = inventory_entry x))"
    by (auto simp: image_iff)
qed

lemma delete_item_items: "items (delete_item s pk) = filter (\<lambda>j. item_pk j \<noteq> pk) (items s)"
  by (simp add: delete_item_def Let_def)

lemma delete_item_entries: "entries (delete_item s pk) = filter (\<lambda>e. item e \<noteq> pk) (entries s)"
  by (simp add: delete_item_def Let_def)

lemma delete_item_usage_logs:
  "usage_logs (delete_item s pk) =
     filter (\<lambda>l. \<not> (\<exists>e \<in> set (entries s). item e = pk \<and> entry_pk e = inventory_entry l))
       (usage_logs s)"
  by (simp only: delete_item_def Let_def doomed_logs) simp

lemma delete_item_others:
  "locations (delete_item s pk) = locations s \<and> categories (delete_item s pk) = categories s"
  by (simp add: delete_item_def Let_def)

subsection \<open>The expiration filters of the views\<close>

lemma days_until_expiration_today:
  "expiration_date e = today \<Longrightarrow> days_until_expiration e today = 0"
  by (simp add: days_until_expiration_def)

lemma status_filter_expiring:
  "status_filter (Some ''expiring'') today e = is_expiring_soon e today 7"
  by (auto simp: status_filter_def is_expiring_soon_def days_until_expiration_def)

lemma status_filter_expired:
  "status_filter (Some ''expired'') today e = is_expired e today"
  by (auto simp: status_filter_def is_expired_def days_until_expiration_def)

lemma status_filter_fresh:
  "status_filter (Some ''fresh'') today e = (days_until_expiration e today > 7)"
  by (auto simp: status_filter_def days_until_expiration_def)

lemma dashboard_bands_positive:
  "(\<forall>e \<in> set (dashboard_expiring_soon s today). 0 < quantity e)
   \<and> (\<forall>e \<in> set (dashboard_expired_items s today). 0 < quantity e)"
  by (auto simp: dashboard_expiring_soon_def dashboard_expired_items_def Let_def
      dest!: in_set_takeD)

subsection \<open>The scenario stores are reachable\<close>

lemmas form_defs = field_defs
  StorageLocationForm_validate_def CategoryForm_validate_def ItemForm_validate_def
  ItemForm_clean_low_stock_threshold_def InventoryEntryForm_validate_def
  InventoryEntryForm_clean_quantity_def InventoryEntryForm_clean_def
  UsageLogForm_validate_def UsageLogForm_inventory_entry_def
  UsageLogForm_clean_quantity_used_def UsageLogForm_clean_def

lemmas view_defs = inventory_entry_create_def inventory_entry_update_def
  inventory_entry_delete_def item_create_def item_update_def item_delete_def
  location_create_def location_update_def location_delete_def category_create_def
  category_update_def category_delete_def usage_log_create_def
  save_entry_def save_item_def save_location_def save_category_def
  delete_entry_def delete_item_def delete_location_def delete_category_def
  next_pk_def find_entry_def find_item_def find_location_def find_category_def

lemmas scenario_defs = fridge_def dairy_def milk_def eggs_def milk_entry_def eggs_entry_def
  usage_row_def usage_form_def milk_store_def milk_used_store_def depleted_store_def
  pantry_store_def empty_store_def milk_form_def status_params_def

lemma run_milk_requests: "run empty_store milk_requests = milk_store"
  by (simp add: milk_requests_def scenario_defs view_defs form_defs)

lemma handle_log_one:
  "handle milk_store (Usage_log_create POST (usage_form 1 1)) = (milk_used_store, Redirect_success)"
  by (simp add: scenario_defs view_defs form_defs)

lemma handle_log_two:
  "handle milk_used_store (Usage_log_create POST (usage_form 1 2)) = (depleted_store, Redirect_success)"
  by (simp add: scenario_defs view_defs form_defs)

lemma run_eggs_requests: "run milk_used_store eggs_requests = pantry_store"
  by (simp add: eggs_requests_def scenario_defs view_defs form_defs)

lemma reachable_milk_store: "reachable milk_store"
  using reachable_run [OF reachable_empty, of milk_requests] by (simp add: run_milk_requests)

lemma reachable_milk_used_store: "reachable milk_used_store"
  using reachable_step [OF reachable_milk_store, of "Usage_log_create POST (usage_form 1 1)"]
  by (simp only: handle_log_one fst_conv)

lemma reachable_depleted_store: "reachable depleted_store"
  using reachable_step [OF reachable_milk_used_store, of "Usage_log_create POST (usage_form 1 2)"]
  by (simp only: handle_log_two fst_conv)

lemma reachable_pantry_store: "reachable pantry_store"
  using reachable_run [OF reachable_milk_used_store, of eggs_requests]
  by (simp add: run_eggs_requests)

section \<open>Usage transaction\<close>

text \<open>
  Claim C1. A usage log that is accepted names an entry \<open>e\<close> of the store and a quantity
  \<open>q\<close> with \<open>0 < q \<le> quantity e\<close>; it appends one \<open>UsageLog\<close> row recording \<open>q\<close> against
  that entry, and the entry is afterwards the same row with its quantity lowered by exactly
  \<open>q\<close>. Conversely every posted usage with \<open>0 < q \<le> quantity e\<close> and a usage date is accepted.
\<close>

theorem log_usage_decrements:
  "(usage_log_create s POST d = (s', Redirect_success) \<longrightarrow>
      (\<exists>k e q ud.
         post_inventory_entry d = Posted k \<and> post_quantity_used d = Posted q
         \<and> post_usage_date d = Posted ud \<and> find_entry s k = Some e
         \<and> 0 < q \<and> q \<le> quantity e
         \<and> usage_logs s' = usage_logs s @
             [\<lparr>log_pk = next_pk (map log_pk (usage_logs s)), inventory_entry = k,
               quantity_used = q, usage_date = ud, log_notes = Some (post_log_notes d)\<rparr>]
         \<and> find_entry s' k = Some (e\<lparr>quantity := quantity e - q\<rparr>)))
   \<and> (post_inventory_entry d = Posted k \<and> post_quantity_used d = Posted q
        \<and> post_usage_date d = Posted ud \<and> find_entry s k = Some e
        \<and> 0 < q \<and> q \<le> quantity e \<longrightarrow>
        (\<exists>s'. usage_log_create s POST d = (s', Redirect_success)
           \<and> find_entry s' k = Some (e\<lparr>quantity := quantity e - q\<rparr>)))"
proof (intro conjI impI)
  assume "usage_log_create s POST d = (s', Redirect_success)"
  then obtain u e where v: "UsageLogForm_validate s (next_pk (map log_pk (usage_logs s))) d = Inr (u, e)"
    and s': "s' = save_entry (s\<lparr>usage_logs := usage_logs s @ [u]\<rparr>)
                (e\<lparr>quantity := quantity e - quantity_used u\<rparr>)"
    using usage_log_create_success by blast
  note f = UsageLogForm_validate_Inr [OF v]
  have "find_entry (s\<lparr>usage_logs := usage_logs s @ [u]\<rparr>) (entry_pk e) = Some e"
    using f by (simp add: find_entry_def)
  then have "find_entry s' (entry_pk e) = Some (e\<lparr>quantity := quantity e - quantity_used u\<rparr>)"
    using find_entry_save_entry [of "s\<lparr>usage_logs := usage_logs s @ [u]\<rparr>" "e\<lparr>quantity := quantity e - quantity_used u\<rparr>" e]
    by (simp add: s')
  moreover have "usage_logs s' = usage_logs s @ [u]"
    by (simp add: s' save_entry_def)
  ultimately show "\<exists>k e q ud.
         post_inventory_entry d = Posted k \<and> post_quantity_used d = Posted q
         \<and> post_usage_date d = Posted ud \<and> find_entry s k = Some e
         \<and> 0 < q \<and> q \<le> quantity e
         \<and> usage_logs s' = usage_logs s @
             [\<lparr>log_pk = next_pk (map log_pk (usage_logs s)), inventory_entry = k,
               quantity_used = q, usage_date = ud, log_notes = Some (post_log_notes d)\<rparr>]
         \<and> find_entry s' k = Some (e\<lparr>quantity := quantity e - q\<rparr>)"
    using f by (intro exI [of _ "entry_pk e"] exI [of _ e] exI [of _ "quantity_used u"]
        exI [of _ "usage_date u"]) simp
next
  assume a: "post_inventory_entry d = Posted k \<and> post_quantity_used d = Posted q
        \<and> post_usage_date d = Posted ud \<and> find_entry s k = Some e
        \<and> 0 < q \<and> q \<le> quantity e"
  let ?u = "\<lparr>log_pk = next_pk (map log_pk (usage_logs s)), inventory_entry = k,
      quantity_used = q, usage_date = ud, log_notes = Some (post_log_notes d)\<rparr>"
  have v: "UsageLogForm_validate s (next_pk (map log_pk (usage_logs s))) d = Inr (?u, e)"
    using a by (intro UsageLogForm_validate_ok) simp_all
  have k: "entry_pk e = k" using a find_entry_SomeD by blast
  have "find_entry (s\<lparr>usage_logs := usage_logs s @ [?u]\<rparr>) (entry_pk (e\<lparr>quantity := quantity e - q\<rparr>)) = Some e"
    using a k by (simp add: find_entry_def)
  then have "find_entry (save_entry (s\<lparr>usage_logs := usage_logs s @ [?u]\<rparr>) (e\<lparr>quantity := quantity e - q\<rparr>)) k
      = Some (e\<lparr>quantity := quantity e - q\<rparr>)"
    using find_entry_save_entry [of "s\<lparr>usage_logs := usage_logs s @ [?u]\<rparr>" "e\<lparr>quantity := quantity e - q\<rparr>" e] k
    by simp
  then show "\<exists>s'. usage_log_create s POST d = (s', Redirect_success)
           \<and> find_entry s' k = Some (e\<lparr>quantity := quantity e - q\<rparr>)"
    by (simp add: usage_log_create_def v Let_def)
qed

text \<open>The first usage of the Milk scenario: 1 gallon of 3.\<close>

theorem log_usage_decrements_witness:
  "usage_log_create milk_store POST (usage_form 1 1) = (milk_used_store, Redirect_success)
   \<and> (\<exists>k e q ud.
         post_inventory_entry (usage_form 1 1) = Posted k \<and> post_quantity_used (usage_form 1 1) = Posted q
         \<and> post_usage_date (usage_form 1 1) = Posted ud \<and> find_entry milk_store k = Some e
         \<and> 0 < q \<and> q \<le> quantity e
         \<and> usage_logs milk_used_store = usage_logs milk_store @
             [\<lparr>log_pk = next_pk (map log_pk (usage_logs milk_store)), inventory_entry = k,
               quantity_used = q, usage_date = ud,
               log_notes = Some (post_log_notes (usage_form 1 1))\<rparr>]
         \<and> find_entry milk_used_store k = Some (e\<lparr>quantity := quantity e - q\<rparr>))
   \<and> post_inventory_entry (usage_form 1 1) = Posted 1
   \<and> post_quantity_used (usage_form 1 1) = Posted 1
   \<and> post_usage_date (usage_form 1 1) = Posted 738887
   \<and> find_entry milk_store 1 = Some (milk_entry 3)
   \<and> (0::int) < 1 \<and> 1 \<le> quantity (milk_entry 3)
   \<and> (\<exists>s'. usage_log_create milk_store POST (usage_form 1 1) = (s', Redirect_success)
          \<and> find_entry s' 1 = Some ((milk_entry 3)\<lparr>quantity := quantity (milk_entry 3) - 1\<rparr>))
   \<and> find_entry milk_used_store 1 = Some (milk_entry 2)
   \<and> usage_logs milk_used_store = [usage_row 1 1 1]"
proof -
  have h: "usage_log_create milk_store POST (usage_form 1 1) = (milk_used_store, Redirect_success)"
    using handle_log_one by simp
  have g: "find_entry milk_store 1 = Some (milk_entry 3)
     \<and> find_entry milk_used_store 1 = Some (milk_entry 2)
     \<and> usage_logs milk_used_store = [usage_row 1 1 1]"
    by (simp add: scenario_defs find_entry_def)
  have p: "post_inventory_entry (usage_form 1 1) = Posted 1
     \<and> post_quantity_used (usage_form 1 1) = Posted 1
     \<and> post_usage_date (usage_form 1 1) = Posted 738887
     \<and> (0::int) < 1 \<and> 1 \<le> quantity (milk_entry 3)"
    by (simp add: scenario_defs)
  from log_usage_decrements
         [of milk_store "usage_form 1 1" milk_used_store 1 1 738887 "milk_entry 3"] h g p
  show ?thesis by blast
qed

text \<open>
  Claim C2, as the code has it. A usage of more than the entry holds is refused and the
  store (entries and usage logs alike) is returned as it was. When the entry still has
  stock the refusal carries the error of \<open>UsageLogForm.clean\<close> on \<open>quantity_used\<close>,
  'Cannot use more than available quantity (n)'. When the entry has none left it is not in
  the queryset of the \<open>inventory_entry\<close> field: the refusal is that field's invalid choice
  and \<open>clean\<close> never compares the quantities.
\<close>

theorem log_usage_over_quantity_rejected:
  assumes "find_entry s k = Some e" "post_inventory_entry d = Posted k"
    "post_quantity_used d = Posted q" "quantity e < q"
  shows "\<exists>errs. usage_log_create s POST d = (s, Form_invalid errs)
     \<and> (if 0 < quantity e then (''quantity_used'', Insufficient_quantity (quantity e)) \<in> set errs
         else (''inventory_entry'', Invalid_choice) \<in> set errs
              \<and> (''quantity_used'', Insufficient_quantity (quantity e)) \<notin> set errs)"
proof -
  from UsageLogForm_validate_insufficient [OF assms(2,3,1,4)]
  obtain errs where "UsageLogForm_validate s (next_pk (map log_pk (usage_logs s))) d = Inl errs"
    and "if 0 < quantity e then (''quantity_used'', Insufficient_quantity (quantity e)) \<in> set errs
         else (''inventory_entry'', Invalid_choice) \<in> set errs
              \<and> (''quantity_used'', Insufficient_quantity (quantity e)) \<notin> set errs"
    by blast
  then show ?thesis by (simp add: usage_log_create_def)
qed

text \<open>The second usage of the Milk scenario: 5 asked of an entry that holds 2.\<close>

theorem log_usage_over_quantity_rejected_witness:
  "find_entry milk_used_store 1 = Some (milk_entry 2)
   \<and> post_inventory_entry (usage_form 1 5) = Posted 1
   \<and> post_quantity_used (usage_form 1 5) = Posted 5
   \<and> quantity (milk_entry 2) < 5
   \<and> usage_log_create milk_used_store POST (usage_form 1 5)
       = (milk_used_store, Form_invalid [(''quantity_used'', Insufficient_quantity 2)])
   \<and> (\<exists>errs. usage_log_create milk_used_store POST (usage_form 1 5)
                = (milk_used_store, Form_invalid errs)
          \<and> (''quantity_used'', Insufficient_quantity 2) \<in> set errs)"
proof -
  have a: "find_entry milk_used_store 1 = Some (milk_entry 2)"
    and b: "post_inventory_entry (usage_form 1 5) = Posted 1"
    and c: "post_quantity_used (usage_form 1 5) = Posted 5"
    and d: "quantity (milk_entry 2) < 5"
    by (simp_all add: scenario_defs find_entry_def)
  have e: "usage_log_create milk_used_store POST (usage_form 1 5)
       = (milk_used_store, Form_invalid [(''quantity_used'', Insufficient_quantity 2)])"
    by (simp add: scenario_defs view_defs form_defs)
  have q: "quantity (milk_entry 2) = 2" by (simp add: milk_entry_def)
  from log_usage_over_quantity_rejected [OF a b c d] a b c d e
  show ?thesis unfolding q by simp
qed

text \<open>
  On a depleted entry (quantity 0, reached by using all 3 gallons) a usage of 5 is refused
  without the insufficient-quantity error.
\<close>

theorem log_usage_depleted_counterexample:
  "reachable depleted_store
   \<and> find_entry depleted_store 1 = Some (milk_entry 0)
   \<and> quantity (milk_entry 0) < 5
   \<and> usage_log_create depleted_store POST (usage_form 1 5)
       = (depleted_store, Form_invalid [(''inventory_entry'', Invalid_choice)])
   \<and> (''quantity_used'', Insufficient_quantity (quantity (milk_entry 0)))
       \<notin> set [(''inventory_entry'', Invalid_choice)]"
proof -
  have "find_entry depleted_store 1 = Some (milk_entry 0)
   \<and> quantity (milk_entry 0) < 5
   \<and> usage_log_create depleted_store POST (usage_form 1 5)
       = (depleted_store, Form_invalid [(''inventory_entry'', Invalid_choice)])
   \<and> (''quantity_used'', Insufficient_quantity (quantity (milk_entry 0)))
       \<notin> set [(''inventory_entry'', Invalid_choice)]"
    by (simp add: scenario_defs view_defs form_defs)
  with reachable_depleted_store show ?thesis by blast
qed

section \<open>Ledger invariants\<close>

text \<open>
  Claim C3. In every store that the routed requests can produce from the empty database,
  every inventory entry has a quantity of at least 0.
\<close>

theorem quantity_never_negative:
  "reachable s \<Longrightarrow> \<forall>e \<in> set (entries s). 0 \<le> quantity e"
proof (induction rule: reachable.induct)
  case reachable_empty
  show ?case by (simp add: empty_store_def)
next
  case (reachable_step s r)
  show ?case
  proof
    fix x assume "x \<in> set (entries (fst (handle s r)))"
    from handle_entries [OF this] reachable_step.IH show "0 \<le> quantity x"
      by (auto dest: InventoryEntryForm_validate_Inr)
  qed
qed

text \<open>The depleted Milk store is reachable and its entry holds exactly 0.\<close>

theorem quantity_never_negative_witness:
  "reachable depleted_store \<and> list_all (\<lambda>e. 0 \<le> quantity e) (entries depleted_store)
   \<and> map quantity (entries depleted_store) = [0]"
proof -
  have "map quantity (entries depleted_store) = [0]" by (simp add: scenario_defs)
  with quantity_never_negative [OF reachable_depleted_store] reachable_depleted_store
  show ?thesis by (simp add: list_all_iff)
qed

text \<open>
  Claim C7. A posted entry form whose expiration date is before its purchase date is
  refused with the error on \<open>expiration_date\<close>, by the create view and by the update view of
  any existing entry, and the store is returned as it was. In every store that the routed
  requests can produce, every entry has \<open>purchase_date \<le> expiration_date\<close>.
\<close>

theorem expiration_before_purchase_rejected:
  "(post_purchase_date d = Posted p \<and> post_expiration_date d = Posted x \<and> x < p \<longrightarrow>
      (\<exists>errs. inventory_entry_create s POST d = (s, Form_invalid errs)
          \<and> (''expiration_date'', Expiration_before_purchase) \<in> set errs)
      \<and> (\<forall>pk. find_entry s pk \<noteq> None \<longrightarrow>
            (\<exists>errs. inventory_entry_update s POST pk d = (s, Form_invalid errs)
               \<and> (''expiration_date'', Expiration_before_purchase) \<in> set errs)))
   \<and> (reachable s \<longrightarrow> (\<forall>e \<in> set (entries s). purchase_date e \<le> expiration_date e))"
proof (intro conjI impI allI)
  assume a: "post_purchase_date d = Posted p \<and> post_expiration_date d = Posted x \<and> x < p"
  then have v: "\<And>pk. \<exists>errs. InventoryEntryForm_validate s pk d = Inl errs
           \<and> (''expiration_date'', Expiration_before_purchase) \<in> set errs"
    by (intro InventoryEntryForm_validate_dates [of d p x]) simp_all
  from v [of "next_pk (map entry_pk (entries s))"]
  show "\<exists>errs. inventory_entry_create s POST d = (s, Form_invalid errs)
          \<and> (''expiration_date'', Expiration_before_purchase) \<in> set errs"
    by (auto simp: inventory_entry_create_def)
  fix pk assume "find_entry s pk \<noteq> None"
  then obtain e0 where "find_entry s pk = Some e0" by blast
  with v [of "entry_pk e0"]
  show "\<exists>errs. inventory_entry_update s POST pk d = (s, Form_invalid errs)
          \<and> (''expiration_date'', Expiration_before_purchase) \<in> set errs"
    by (auto simp: inventory_entry_update_def)
next
  assume "reachable s"
  then show "\<forall>e \<in> set (entries s). purchase_date e \<le> expiration_date e"
    by (rule reachable_dates_ordered)
qed

text \<open>The Milk form with the two dates exchanged.\<close>

theorem expiration_before_purchase_rejected_witness:
  "post_purchase_date (milk_form 3 738895 738886 '''') = Posted 738895
   \<and> post_expiration_date (milk_form 3 738895 738886 '''') = Posted 738886
   \<and> (738886::int) < 738895
   \<and> inventory_entry_create milk_store POST (milk_form 3 738895 738886 '''')
       = (milk_store, Form_invalid [(''expiration_date'', Expiration_before_purchase)])
   \<and> find_entry milk_store 1 \<noteq> None
   \<and> (\<exists>errs. inventory_entry_update milk_store POST 1 (milk_form 3 738895 738886 '''')
                = (milk_store, Form_invalid errs)
          \<and> (''expiration_date'', Expiration_before_purchase) \<in> set errs)
   \<and> reachable pantry_store
   \<and> list_all (\<lambda>e. purchase_date e \<le> expiration_date e) (entries pantry_store)"
proof -
  have a: "post_purchase_date (milk_form 3 738895 738886 '''') = Posted 738895
     \<and> post_expiration_date (milk_form 3 738895 738886 '''') = Posted 738886
     \<and> (738886::int) < 738895"
    by (simp add: milk_form_def)
  have b: "find_entry milk_store 1 \<noteq> None" by (simp add: scenario_defs find_entry_def)
  have c: "inventory_entry_create milk_store POST (milk_form 3 738895 738886 '''')
       = (milk_store, Form_invalid [(''expiration_date'', Expiration_before_purchase)])"
    by (simp add: milk_form_def scenario_defs view_defs form_defs)
  from expiration_before_purchase_rejected
         [of "milk_form 3 738895 738886 ''''" 738895 738886 milk_store] a b
  have d: "\<exists>errs. inventory_entry_update milk_store POST 1 (milk_form 3 738895 738886 '''')
                = (milk_store, Form_invalid errs)
          \<and> (''expiration_date'', Expiration_before_purchase) \<in> set errs"
    by blast
  from expiration_before_purchase_rejected [of _ _ _ pantry_store] reachable_pantry_store
  have e: "list_all (\<lambda>e. purchase_date e \<le> expiration_date e) (entries pantry_store)"
    by (simp add: list_all_iff)
  from a b c d e reachable_pantry_store show ?thesis by simp
qed




section \<open>Expiration bands and low stock\<close>

text \<open>
  Claim C4. With \<open>d = days_until_expiration e today\<close>: \<open>is_expired\<close> is \<open>d < 0\<close>,
  \<open>is_expiring_soon\<close> with window \<open>N\<close> is \<open>0 \<le> d \<le> N\<close>, and the status filters of
  \<open>inventory_list\<close> (whose window is the constant 7) are \<open>d < 0\<close>, \<open>0 \<le> d \<le> 7\<close> and
  \<open>d > 7\<close>. Expired, expiring soon and \<open>d > N\<close> exclude each other pairwise and one of them
  always holds, for every window \<open>N \<ge> 0\<close>. An entry that expires today has \<open>d = 0\<close>, is
  expiring soon, and is neither expired nor fresh.
\<close>

theorem expiration_bands:
  "(is_expired e today \<longleftrightarrow> days_until_expiration e today < 0)
   \<and> (is_expiring_soon e today N \<longleftrightarrow>
        0 \<le> days_until_expiration e today \<and> days_until_expiration e today \<le> N)
   \<and> (status_filter (Some ''expired'') today e \<longleftrightarrow> days_until_expiration e today < 0)
   \<and> (status_filter (Some ''expiring'') today e \<longleftrightarrow>
        0 \<le> days_until_expiration e today \<and> days_until_expiration e today \<le> 7)
   \<and> (status_filter (Some ''fresh'') today e \<longleftrightarrow> 7 < days_until_expiration e today)
   \<and> \<not> (is_expired e today \<and> is_expiring_soon e today N)
   \<and> \<not> (is_expiring_soon e today N \<and> N < days_until_expiration e today)
   \<and> (0 \<le> N \<longrightarrow> \<not> (is_expired e today \<and> N < days_until_expiration e today))
   \<and> (is_expired e today \<or> is_expiring_soon e today N \<or> N < days_until_expiration e today)
   \<and> (expiration_date e = today \<and> 0 \<le> N \<longrightarrow>
        days_until_expiration e today = 0 \<and> is_expiring_soon e today N
        \<and> status_filter (Some ''expiring'') today e
        \<and> \<not> is_expired e today \<and> \<not> N < days_until_expiration e today
        \<and> \<not> status_filter (Some ''fresh'') today e)"
  unfolding status_filter_expired status_filter_expiring status_filter_fresh
  by (auto simp: is_expired_def is_expiring_soon_def days_until_expiration_def)

text \<open>The Milk entry on its expiration date.\<close>

theorem expiration_bands_witness:
  "(0::int) \<le> 7
   \<and> \<not> (is_expired (milk_entry 3) 738895 \<and> 7 < days_until_expiration (milk_entry 3) 738895)
   \<and> expiration_date (milk_entry 3) = 738895
   \<and> days_until_expiration (milk_entry 3) 738895 = 0
   \<and> is_expiring_soon (milk_entry 3) 738895 7
   \<and> status_filter (Some ''expiring'') 738895 (milk_entry 3)
   \<and> \<not> is_expired (milk_entry 3) 738895
   \<and> \<not> status_filter (Some ''fresh'') 738895 (milk_entry 3)"
proof -
  have "expiration_date (milk_entry 3) = 738895" by (simp add: milk_entry_def)
  with expiration_bands [of "milk_entry 3" 738895 7] show ?thesis by simp
qed

text \<open>
  Claim C5 at a depleted entry. The store is the Milk scenario after all 3 gallons were
  used: its one entry has quantity 0 and expires on day 738895. The dashboard's expired and
  expiring-soon queries leave the entry out, as \<open>dashboard_bands_positive\<close> says they
  always do; \<open>inventory_list\<close> returns it under each of the three status filters.
\<close>

theorem inventory_list_shows_depleted:
  "reachable depleted_store
   \<and> map quantity (entries depleted_store) = [0]
   \<and> inventory_list depleted_store 738900 (status_params ''expired'') = Inr (entries depleted_store)
   \<and> dashboard_expired_items depleted_store 738900 = []
   \<and> inventory_list depleted_store 738890 (status_params ''expiring'') = Inr (entries depleted_store)
   \<and> dashboard_expiring_soon depleted_store 738890 = []
   \<and> inventory_list depleted_store 738880 (status_params ''fresh'') = Inr (entries depleted_store)"
proof -
  have "map quantity (entries depleted_store) = [0]
   \<and> inventory_list depleted_store 738900 (status_params ''expired'') = Inr (entries depleted_store)
   \<and> dashboard_expired_items depleted_store 738900 = []
   \<and> inventory_list depleted_store 738890 (status_params ''expiring'') = Inr (entries depleted_store)
   \<and> dashboard_expiring_soon depleted_store 738890 = []
   \<and> inventory_list depleted_store 738880 (status_params ''fresh'') = Inr (entries depleted_store)"
    by (simp add: scenario_defs status_params_def inventory_list_def
        status_filter_def dashboard_expired_items_def dashboard_expiring_soon_def)
  with reachable_depleted_store show ?thesis by blast
qed

text \<open>
  Claim C6. \<open>is_low_stock\<close> is false for an item without a threshold; with threshold \<open>t\<close>
  it is true exactly when the sum of the quantities of all the item's entries is below \<open>t\<close>,
  so a total equal to the threshold is not low stock. The sum runs over every entry of the
  item; those of quantity 0 add nothing to it.
\<close>

theorem is_low_stock_threshold:
  "(low_stock_threshold i = None \<longrightarrow> \<not> is_low_stock s i)
   \<and> (\<forall>t. low_stock_threshold i = Some t \<longrightarrow>
         (is_low_stock s i \<longleftrightarrow>
            sum_list (map quantity (filter (\<lambda>e. item e = item_pk i) (entries s))) < t))
   \<and> (low_stock_threshold i = Some (get_total_quantity s i) \<longrightarrow> \<not> is_low_stock s i)
   \<and> get_total_quantity s i =
        sum_list (map quantity (filter (\<lambda>e. item e = item_pk i \<and> quantity e \<noteq> 0) (entries s)))"
proof -
  have "get_total_quantity s i =
        sum_list (map quantity (filter (\<lambda>e. item e = item_pk i \<and> quantity e \<noteq> 0) (entries s)))"
    unfolding get_total_quantity_def inventory_entries_def by (rule sum_list_nonzero)
  then show ?thesis
    by (simp add: is_low_stock_def get_total_quantity_def inventory_entries_def)
qed

text \<open>Milk after one usage: total 2 against threshold 2. Eggs have no threshold.\<close>

theorem is_low_stock_threshold_witness:
  "low_stock_threshold milk = Some 2
   \<and> sum_list (map quantity (filter (\<lambda>e. item e = item_pk milk) (entries pantry_store))) = 2
   \<and> low_stock_threshold milk = Some (get_total_quantity pantry_store milk)
   \<and> \<not> is_low_stock pantry_store milk
   \<and> is_low_stock depleted_store milk
   \<and> low_stock_threshold eggs = None
   \<and> \<not> is_low_stock pantry_store eggs"
proof -
  have a: "low_stock_threshold milk = Some 2" "low_stock_threshold eggs = None"
    by (simp_all add: scenario_defs)
  have b: "sum_list (map quantity (filter (\<lambda>e. item e = item_pk milk) (entries pantry_store))) = 2"
    by (simp add: scenario_defs)
  have c: "get_total_quantity pantry_store milk = 2"
    by (simp add: get_total_quantity_def inventory_entries_def scenario_defs)
  have d: "sum_list (map quantity (filter (\<lambda>e. item e = item_pk milk) (entries depleted_store))) < 2"
    by (simp add: scenario_defs)
  from is_low_stock_threshold [of milk pantry_store] is_low_stock_threshold [of eggs pantry_store]
    is_low_stock_threshold [of milk depleted_store] a b c d
  show ?thesis by simp
qed

section \<open>Deletion policy\<close>

text \<open>
  Claim C8. Deleting a category that an item references, or a storage location that an
  item or an inventory entry references, raises \<open>ProtectedError\<close>; the view answers with
  its error message and the store is exactly the one before the request.
\<close>

theorem protected_delete_refused:
  "(find_category s pk = Some c \<and> (\<exists>i \<in> set (items s). category i = pk) \<longrightarrow>
      delete_category s pk = Inl ProtectedError
      \<and> category_delete s POST pk = (s, Redirect_error)
      \<and> (\<forall>m. fst (category_delete s m pk) = s))
   \<and> (find_location s pk = Some l
       \<and> ((\<exists>i \<in> set (items s). default_storage_location i = pk)
           \<or> (\<exists>e \<in> set (entries s). storage_location e = pk)) \<longrightarrow>
      delete_location s pk = Inl ProtectedError
      \<and> location_delete s POST pk = (s, Redirect_error)
      \<and> (\<forall>m. fst (location_delete s m pk) = s))"
proof (intro conjI impI allI)
  assume a: "find_category s pk = Some c \<and> (\<exists>i \<in> set (items s). category i = pk)"
  then have k: "cat_pk c = pk" by (auto simp: find_category_def find_Some_iff)
  from a show d: "delete_category s pk = Inl ProtectedError"
    by (simp add: delete_category_def)
  from a k d show "category_delete s POST pk = (s, Redirect_error)"
    by (simp add: category_delete_def)
  fix m from a k d show "fst (category_delete s m pk) = s"
    by (simp add: category_delete_def)
next
  assume a: "find_location s pk = Some l
       \<and> ((\<exists>i \<in> set (items s). default_storage_location i = pk)
           \<or> (\<exists>e \<in> set (entries s). storage_location e = pk))"
  then have k: "loc_pk l = pk" by (auto simp: find_location_def find_Some_iff)
  from a show d: "delete_location s pk = Inl ProtectedError"
    by (simp add: delete_location_def)
  from a k d show "location_delete s POST pk = (s, Redirect_error)"
    by (simp add: location_delete_def)
  fix m from a k d show "fst (location_delete s m pk) = s"
    by (simp add: location_delete_def)
qed

text \<open>Dairy and Fridge are both in use in the pantry store.\<close>

theorem protected_delete_refused_witness:
  "find_category pantry_store 1 = Some dairy
   \<and> (\<exists>i \<in> set (items pantry_store). category i = 1)
   \<and> delete_category pantry_store 1 = Inl ProtectedError
   \<and> category_delete pantry_store POST 1 = (pantry_store, Redirect_error)
   \<and> find_location pantry_store 1 = Some fridge
   \<and> (\<exists>e \<in> set (entries pantry_store). storage_location e = 1)
   \<and> delete_location pantry_store 1 = Inl ProtectedError
   \<and> location_delete pantry_store POST 1 = (pantry_store, Redirect_error)"
proof -
  have a: "find_category pantry_store 1 = Some dairy
     \<and> (\<exists>i \<in> set (items pantry_store). category i = 1)"
    by (simp add: scenario_defs find_category_def)
  have b: "find_location pantry_store 1 = Some fridge
     \<and> (\<exists>e \<in> set (entries pantry_store). storage_location e = 1)"
    by (simp add: scenario_defs find_location_def)
  from protected_delete_refused [of pantry_store 1 dairy fridge] a b
  show ?thesis by simp
qed

text \<open>
  Claim C9. Deleting an existing item succeeds and removes the item, exactly the entries
  that reference it, and exactly the usage logs that reference one of those entries. All
  other items, entries and usage logs, and all locations and categories, stay as they were.
\<close>

theorem item_delete_cascades:
  assumes "find_item s pk = Some i"
  shows "\<exists>s'. item_delete s POST pk = (s', Redirect_success)
     \<and> find_item s' pk = None
     \<and> (\<forall>e \<in> set (entries s'). item e \<noteq> pk)
     \<and> (\<forall>l \<in> set (usage_logs s'). \<forall>e \<in> set (entries s). item e = pk \<longrightarrow> inventory_entry l \<noteq> entry_pk e)
     \<and> items s' = filter (\<lambda>j. item_pk j \<noteq> pk) (items s)
     \<and> entries s' = filter (\<lambda>e. item e \<noteq> pk) (entries s)
     \<and> usage_logs s' =
          filter (\<lambda>l. \<not> (\<exists>e \<in> set (entries s). item e = pk \<and> entry_pk e = inventory_entry l))
            (usage_logs s)
     \<and> locations s' = locations s \<and> categories s' = categories s"
proof (intro exI conjI)
  from assms have k: "item_pk i = pk" by (auto simp: find_item_def find_Some_iff)
  show "item_delete s POST pk = (delete_item s pk, Redirect_success)"
    using assms k by (simp add: item_delete_def)
  show "find_item (delete_item s pk) pk = None"
    by (simp add: find_item_def delete_item_items find_None_iff)
  show "\<forall>e \<in> set (entries (delete_item s pk)). item e \<noteq> pk"
    by (simp add: delete_item_entries)
  show "\<forall>l \<in> set (usage_logs (delete_item s pk)). \<forall>e \<in> set (entries s).
          item e = pk \<longrightarrow> inventory_entry l \<noteq> entry_pk e"
    unfolding delete_item_usage_logs by fastforce
  show "items (delete_item s pk) = filter (\<lambda>j. item_pk j \<noteq> pk) (items s)"
    by (rule delete_item_items)
  show "entries (delete_item s pk) = filter (\<lambda>e. item e \<noteq> pk) (entries s)"
    by (rule delete_item_entries)
  show "usage_logs (delete_item s pk) =
     filter (\<lambda>l. \<not> (\<exists>e \<in> set (entries s). item e = pk \<and> entry_pk e = inventory_entry l))
       (usage_logs s)"
    by (rule delete_item_usage_logs)
  show "locations (delete_item s pk) = locations s" by (simp add: delete_item_others)
  show "categories (delete_item s pk) = categories s" by (simp add: delete_item_others)
qed

text \<open>Deleting Milk from the pantry store leaves the Eggs rows.\<close>

theorem item_delete_cascades_witness:
  "find_item pantry_store 1 = Some milk
   \<and> item_delete pantry_store POST 1
       = (\<lparr>locations = [fridge], categories = [dairy], items = [eggs],
           entries = [eggs_entry 11], usage_logs = [usage_row 2 2 1]\<rparr>, Redirect_success)
   \<and> (\<exists>s'. item_delete pantry_store POST 1 = (s', Redirect_success)
         \<and> find_item s' 1 = None
         \<and> entries s' = filter (\<lambda>e. item e \<noteq> 1) (entries pantry_store)
         \<and> usage_logs s' =
             filter (\<lambda>l. \<not> (\<exists>e \<in> set (entries pantry_store). item e = 1 \<and> entry_pk e = inventory_entry l))
               (usage_logs pantry_store))"
proof -
  have a: "find_item pantry_store 1 = Some milk" by (simp add: scenario_defs find_item_def)
  have b: "item_delete pantry_store POST 1
       = (\<lparr>locations = [fridge], categories = [dairy], items = [eggs],
           entries = [eggs_entry 11], usage_logs = [usage_row 2 2 1]\<rparr>, Redirect_success)"
    by (simp add: scenario_defs view_defs)
  from item_delete_cascades [OF a] have "\<exists>s'. item_delete pantry_store POST 1 = (s', Redirect_success)
         \<and> find_item s' 1 = None
         \<and> entries s' = filter (\<lambda>e. item e \<noteq> 1) (entries pantry_store)
         \<and> usage_logs s' =
             filter (\<lambda>l. \<not> (\<exists>e \<in> set (entries pantry_store). item e = 1 \<and> entry_pk e = inventory_entry l))
               (usage_logs pantry_store)"
    by blast
  with a b show ?thesis by blast
qed

end